theory Spec2Isabelle
  imports Main
begin

section \<open>Python primitives used by the Vampire tool-info module\<close>

text \<open>
  The module \<^verbatim>\<open>benchexec/tools/vampire.py\<close> is embedded function by function.
  Python strings are modelled as \<^typ>\<open>string\<close>; a \<^typ>\<open>char\<close> stands for one code point
  below 256. Exceptions are values of type \<open>error\<close>, and a function that can raise
  returns \<open>error + 'a\<close> with \<open>Inl\<close> for the exception.
\<close>

datatype error = AssertionError | OverflowError | IndexError

text \<open>\<^verbatim>\<open>s.startswith(p)\<close>: the first \<open>len(p)\<close> characters of \<open>s\<close> are \<open>p\<close>.\<close>

definition startswith :: "string \<Rightarrow> string \<Rightarrow> bool" where
  "startswith s p \<longleftrightarrow> take (length p) s = p"

text \<open>
  The characters that \<^verbatim>\<open>str.split()\<close> without argument treats as separators
  (\<^verbatim>\<open>str.isspace\<close>), for code points below 256: TAB, LF, VT, FF, CR, the four
  separators FS, GS, RS, US, the space, NEL and the no-break space.
\<close>

definition isspace :: "char \<Rightarrow> bool" where
  "isspace c \<longleftrightarrow>
     (let n = (of_char c :: nat)
      in (9 \<le> n \<and> n \<le> 13) \<or> (28 \<le> n \<and> n \<le> 32) \<or> n = 133 \<or> n = 160)"

text \<open>
  \<^verbatim>\<open>s.split()\<close>: skip a run of whitespace, take the maximal run of other characters
  as the next word, repeat. No word is empty.
\<close>

function str_split :: "string \<Rightarrow> string list" where
  "str_split s =
     (case dropWhile isspace s of
        [] \<Rightarrow> []
      | c # cs \<Rightarrow> takeWhile (\<lambda>x. \<not> isspace x) (c # cs)
                 # str_split (dropWhile (\<lambda>x. \<not> isspace x) (c # cs)))"
  by pat_completeness auto
termination
proof (relation "measure length")
  show "wf (measure length)" by simp
next
  fix s :: string and c cs
  assume d: "dropWhile isspace s = c # cs"
  have "\<not> isspace c"
    using d hd_dropWhile [of isspace s] by simp
  then have "length (dropWhile (\<lambda>x. \<not> isspace x) (c # cs)) \<le> length cs"
    by (simp add: length_dropWhile_le)
  moreover have "length (c # cs) \<le> length s"
    using length_dropWhile_le [of isspace s] d by simp
  ultimately show "(dropWhile (\<lambda>x. \<not> isspace x) (c # cs), s) \<in> measure length"
    by simp
qed

declare str_split.simps [simp del]

text \<open>\<^verbatim>\<open>xs[i]\<close> for an index \<open>i \<ge> 0\<close>: raises \<open>IndexError\<close> out of range.\<close>

definition py_index :: "'a list \<Rightarrow> nat \<Rightarrow> error + 'a" where
  "py_index xs i = (if i < length xs then Inr (xs ! i) else Inl IndexError)"

text \<open>\<^verbatim>\<open>str(n)\<close> and the f-string \<^verbatim>\<open>f"{n}"\<close> of an integer: its decimal digits.\<close>

definition digit :: "nat \<Rightarrow> char" where
  "digit d = ''0123456789'' ! d"

fun str_nat :: "nat \<Rightarrow> string" where
  "str_nat n = (if n < 10 then [digit n] else str_nat (n div 10) @ [digit (n mod 10)])"

declare str_nat.simps [simp del]

definition str_int :: "int \<Rightarrow> string" where
  "str_int i = (if i < 0 then CHR ''-'' # str_nat (nat (- i)) else str_nat (nat i))"

text \<open>\<^verbatim>\<open>n.bit_length()\<close> of a natural number.\<close>

fun bit_length :: "nat \<Rightarrow> nat" where
  "bit_length n = (if n = 0 then 0 else Suc (bit_length (n div 2)))"

declare bit_length.simps [simp del]

text \<open>
  A finite IEEE 754 double, written \<open>Double m e\<close> for the value \<open>m * 2 ^ e\<close>
  with \<open>\<bar>m\<bar> \<le> 2 ^ 53\<close>.
\<close>

datatype double = Double (mant: int) (expo: int)

text \<open>
  \<^verbatim>\<open>a / b\<close> on two Python integers is true division: CPython returns the double
  nearest to the exact quotient, ties going to the even mantissa, and raises
  \<open>OverflowError\<close> when that double would be \<open>2 ^ 1024\<close> or more. For the divisor
  \<open>b = 2 ^ k\<close> the quotient only shifts the exponent, so the result is \<open>a\<close> rounded to
  53 significant bits, scaled by \<open>2 ^ - k\<close>: \<open>sh\<close> is the number of bits that do not
  fit, \<open>q\<close> the 53 leading bits, \<open>r\<close> the bits cut off. (For \<open>k \<le> 1022\<close> the result is
  never subnormal.)
\<close>

definition truediv_pow2 :: "int \<Rightarrow> nat \<Rightarrow> error + double" where
  "truediv_pow2 a k =
     (let n = nat \<bar>a\<bar>;
          sh = bit_length n - 53;
          q = n div 2 ^ sh;
          r = n mod 2 ^ sh;
          q' = (if 2 * r > 2 ^ sh \<or> (2 * r = 2 ^ sh \<and> odd q) then q + 1 else q)
      in if bit_length q' + sh > 1024 + k then Inl OverflowError
         else Inr (Double (sgn a * int q') (int sh - int k)))"

text \<open>\<^verbatim>\<open>int(x)\<close> of a finite double: truncation toward zero.\<close>

definition int_of_double :: "double \<Rightarrow> int" where
  "int_of_double x =
     (if 0 \<le> expo x then mant x * 2 ^ nat (expo x)
      else sgn (mant x) * (\<bar>mant x\<bar> div 2 ^ nat (- expo x)))"

section \<open>The data the adapter receives\<close>

text \<open>\<^verbatim>\<open>task.input_files\<close>: the input files of the task, in order.\<close>

record task =
  input_files :: "string list"

text \<open>\<^verbatim>\<open>rlimits.walltime\<close> (seconds) and \<^verbatim>\<open>rlimits.memory\<close> (bytes); \<open>None\<close> is no limit.\<close>

record resource_limits =
  walltime :: "int option"
  memory :: "int option"

text \<open>
  Modelled from the spec: the class of \<^verbatim>\<open>run.exit_code\<close> is not part of this module.
  The run record supplies an exit code that is absent (\<open>None\<close>) or an object with a numeric
  \<^verbatim>\<open>.value\<close>. The module observes two things of the object: its truth value in
  \<^verbatim>\<open>if run.exit_code\<close> (field \<open>truth\<close>; a failure exit status is a true one) and its
  attribute \<^verbatim>\<open>.value\<close> (field \<open>exit_value\<close>, \<open>None\<close> when the object carries no number).
\<close>

record process_exit_code =
  truth :: bool
  exit_value :: "int option"

text \<open>\<^verbatim>\<open>run.output\<close> is the sequence of output lines.\<close>

record run =
  exit_code :: "process_exit_code option"
  "output" :: "string list"

text \<open>
  Modelled from the spec: the accessor \<^verbatim>\<open>output.text\<close> of the class RunOutput, which
  is not part of this module: the whole output as one string, the lines joined by
  line feeds.
\<close>

fun output_text :: "string list \<Rightarrow> string" where
  "output_text [] = []"
| "output_text [l] = l"
| "output_text (l # ls) = l @ CHR 0x0A # output_text ls"

text \<open>
  The constants \<^verbatim>\<open>RESULT_TRUE_PROP\<close>, \<^verbatim>\<open>RESULT_FALSE_PROP\<close>, \<^verbatim>\<open>RESULT_UNKNOWN\<close> and
  \<^verbatim>\<open>RESULT_ERROR\<close> belong to the module \<^verbatim>\<open>benchexec.result\<close>, which is not part of
  this module; the classifier takes them as a parameter.
\<close>

record result_vocabulary =
  RESULT_TRUE_PROP :: string
  RESULT_FALSE_PROP :: string
  RESULT_UNKNOWN :: string
  RESULT_ERROR :: string

section \<open>The command-line builder\<close>

text \<open>
  \<^verbatim>\<open>Tool.cmdline(executable, options, task, rlimits)\<close>. The assertion comes first
  (assertions are enabled, as by default).
  \<^verbatim>\<open>options += [...]\<close> extends the caller's list object in place, so the model returns
  the option list as the call leaves it together with the outcome: the exception
  raised, or the list \<^verbatim>\<open>[executable, *options, *task.input_files]\<close>. The membership
  tests for the memory option read the list after the time limit was appended.
  The divisor \<^verbatim>\<open>1024 * 1024\<close> is \<open>2 ^ 20\<close>.
\<close>

definition cmdline ::
  "string \<Rightarrow> string list \<Rightarrow> task \<Rightarrow> resource_limits \<Rightarrow> string list \<times> (error + string list)"
where
  "cmdline executable options task rlimits =
     (if \<not> length (input_files task) \<le> 1 then (options, Inl AssertionError)
      else
        let options1 =
              (if ''-t'' \<notin> set options \<and> ''--time_limit'' \<notin> set options then
                 (case walltime rlimits of
                    None \<Rightarrow> options @ [''-t'', ''0'']
                  | Some w \<Rightarrow> options @ [''-t'', str_int w @ ''s''])
               else options)
        in
          if ''-m'' \<notin> set options1 \<and> ''--memory_limit'' \<notin> set options1 then
            (case memory rlimits of
               None \<Rightarrow> (options1, Inr (executable # options1 @ input_files task))
             | Some m \<Rightarrow>
                 (case truediv_pow2 m 20 of
                    Inl e \<Rightarrow> (options1, Inl e)
                  | Inr x \<Rightarrow>
                      let memory_mb = int_of_double x;
                          options2 = options1 @ [''-m'', str_int memory_mb]
                      in (options2, Inr (executable # options2 @ input_files task))))
          else (options1, Inr (executable # options1 @ input_files task)))"

section \<open>The output scanners\<close>

text \<open>
  \<^verbatim>\<open>Tool.get_szs_status(output)\<close>: the loop over the lines carries the variable
  \<open>status\<close>; the \<open>else\<close> branch returns from inside the loop.
\<close>

fun get_szs_status_loop :: "string option \<Rightarrow> string list \<Rightarrow> error + string option" where
  "get_szs_status_loop status [] = Inr status"
| "get_szs_status_loop status (line # rest) =
     (if startswith line ''% SZS status'' then
        (case status of
           None \<Rightarrow>
             (let words = str_split line
              in if length words \<ge> 4 then
                   (case py_index words 3 of
                      Inl e \<Rightarrow> Inl e
                    | Inr w \<Rightarrow> get_szs_status_loop (Some w) rest)
                 else get_szs_status_loop None rest)
         | Some _ \<Rightarrow> Inr None)
      else get_szs_status_loop status rest)"

definition get_szs_status :: "string list \<Rightarrow> error + string option" where
  "get_szs_status out = get_szs_status_loop None out"

text \<open>
  \<^verbatim>\<open>Tool.get_other_termination_reasons(output)\<close>: the loop appends to \<open>reasons\<close>;
  \<^verbatim>\<open>line[len(prefix):]\<close> drops the prefix.
\<close>

definition prefix :: string where
  "prefix = ''% Termination reason: ''"

fun get_other_termination_reasons_loop :: "string list \<Rightarrow> string list \<Rightarrow> string list" where
  "get_other_termination_reasons_loop reasons [] = reasons"
| "get_other_termination_reasons_loop reasons (line # rest) =
     (if startswith line prefix
      then get_other_termination_reasons_loop (reasons @ [drop (length prefix) line]) rest
      else get_other_termination_reasons_loop reasons rest)"

definition get_other_termination_reasons :: "string list \<Rightarrow> string list" where
  "get_other_termination_reasons out = get_other_termination_reasons_loop [] out"

section \<open>The result classifier\<close>

definition SZS_UNSAT :: "string list" where
  "SZS_UNSAT = [''ContradictoryAxioms'', ''Theorem'', ''Unsatisfiable'']"

definition SZS_SAT :: "string list" where
  "SZS_SAT = [''CounterSatisfiable'', ''Satisfiable'']"

definition SZS_FAIL :: "string list" where
  "SZS_FAIL = [''Timeout'', ''GaveUp'', ''User'']"

text \<open>\<^verbatim>\<open>status in xs\<close> for a status that may be \<open>None\<close>: \<open>None\<close> is in no list of strings.\<close>

definition status_in :: "string option \<Rightarrow> string list \<Rightarrow> bool" where
  "status_in status xs = (case status of None \<Rightarrow> False | Some s \<Rightarrow> s \<in> set xs)"

text \<open>\<^verbatim>\<open>if run.exit_code\<close>: an absent exit code is false, an object has its own truth value.\<close>

definition exit_code_true :: "run \<Rightarrow> bool" where
  "exit_code_true r = (case exit_code r of None \<Rightarrow> False | Some ec \<Rightarrow> truth ec)"

text \<open>\<^verbatim>\<open>run.exit_code.value == n\<close>, read where the exit code is true.\<close>

definition exit_code_value_is :: "run \<Rightarrow> int \<Rightarrow> bool" where
  "exit_code_value_is r n = (case exit_code r of None \<Rightarrow> False | Some ec \<Rightarrow> exit_value ec = Some n)"

text \<open>
  \<^verbatim>\<open>Tool.determine_result(run)\<close>. An \<open>if\<close> without \<open>else\<close> whose body returns falls
  through to the next statement when its test fails.
\<close>

definition determine_result :: "result_vocabulary \<Rightarrow> run \<Rightarrow> error + string" where
  "determine_result R r =
     (case get_szs_status (output r) of
        Inl e \<Rightarrow> Inl e
      | Inr status \<Rightarrow>
          if exit_code_true r then
            if status = Some ''Timeout'' then Inr ''TIMEOUT''
            else if exit_code_value_is r 4
                    \<and> startswith (output_text (output r)) ''Parsing error''
              then Inr ''Parsing error''
            else if exit_code_value_is r 1 then
              (let reasons = get_other_termination_reasons (output r)
               in if reasons = [''Time limit''] then Inr ''TIMEOUT''
                  else if reasons = [''Refutation not found, incomplete strategy'']
                    then Inr ''Incomplete''
                  else if reasons = [''Refutation not found, non-redundant clauses discarded'']
                    then Inr ''Incomplete''
                  else Inr (RESULT_ERROR R))
            else Inr (RESULT_ERROR R)
          else
            if status_in status SZS_UNSAT then Inr (RESULT_TRUE_PROP R)
            else if status_in status SZS_SAT then Inr (RESULT_FALSE_PROP R)
            else Inr (RESULT_UNKNOWN R))"

section \<open>The statistic value extractor\<close>

text \<open>
  \<^verbatim>\<open>Tool.get_value_from_output(output, identifier)\<close>. \<^verbatim>\<open>x or "--"\<close> is \<open>"--"\<close> when \<open>x\<close>
  is \<open>None\<close> or the empty string, and \<open>x\<close> otherwise. For another identifier the method
  ends without a \<open>return\<close>, which is \<open>None\<close>. The diagnostic \<open>print\<close> is left out.
\<close>

definition get_value_from_output :: "string list \<Rightarrow> string \<Rightarrow> error + string option" where
  "get_value_from_output out identifier =
     (if identifier = ''szs-status'' then
        (case get_szs_status out of
           Inl e \<Rightarrow> Inl e
         | Inr status \<Rightarrow>
             Inr (Some (case status of
                          None \<Rightarrow> ''--''
                        | Some s \<Rightarrow> if s = [] then ''--'' else s)))
      else Inr None)"

section \<open>Properties of the primitives\<close>

text \<open>A number below \<open>2 ^ k\<close> has at most \<open>k\<close> bits, and every number is below \<open>2\<close> to its bit length.\<close>

lemma bit_length_le: "n < 2 ^ k \<Longrightarrow> bit_length n \<le> k"
proof (induction k arbitrary: n)
  case 0
  then show ?case by (simp add: bit_length.simps)
next
  case (Suc k)
  show ?case
  proof (cases "n = 0")
    case True
    then show ?thesis by (simp add: bit_length.simps)
  next
    case False
    have "n div 2 < 2 ^ k" using Suc.prems by simp
    then have "bit_length (n div 2) \<le> k" by (rule Suc.IH)
    then show ?thesis using False by (subst bit_length.simps) simp
  qed
qed

lemma bit_length_bound: "n < 2 ^ bit_length n"
proof (induction n rule: bit_length.induct)
  case (1 n)
  show ?case
  proof (cases "n = 0")
    case True
    then show ?thesis by simp
  next
    case False
    then have "n div 2 < 2 ^ bit_length (n div 2)" by (rule "1.IH")
    then have "n < 2 * 2 ^ bit_length (n div 2)" by arith
    then show ?thesis using False by (subst bit_length.simps) simp
  qed
qed

lemma truediv_pow2_small:
  assumes "\<bar>a\<bar> < 2 ^ 53"
  shows "truediv_pow2 a k = Inr (Double a (- int k))"
proof -
  have "nat \<bar>a\<bar> < 2 ^ 53" using assms by (simp add: nat_less_iff)
  then have bl: "bit_length (nat \<bar>a\<bar>) \<le> 53" by (rule bit_length_le)
  then have sh: "bit_length (nat \<bar>a\<bar>) - 53 = 0" by simp
  have sg: "sgn a * \<bar>a\<bar> = a" by (simp add: sgn_mult_abs)
  show ?thesis
    unfolding truediv_pow2_def Let_def sh using bl sg by simp
qed

lemma int_of_double_MiB: "0 \<le> a \<Longrightarrow> int_of_double (Double a (- 20)) = a div 1048576"
  by (cases "a = 0") (simp_all add: int_of_double_def)

lemma truediv_pow2_overflow:
  assumes "truediv_pow2 a k = Inl e"
  shows "e = OverflowError \<and> 2 ^ (1023 + k) \<le> \<bar>a\<bar>"
proof -
  define n where "n = nat \<bar>a\<bar>"
  define L where "L = bit_length n"
  define sh where "sh = L - 53"
  define q where "q = n div 2 ^ sh"
  define q' where "q' = (if 2 * (n mod 2 ^ sh) > 2 ^ sh \<or> (2 * (n mod 2 ^ sh) = 2 ^ sh \<and> odd q) then q + 1 else q)"
  have ov: "e = OverflowError \<and> bit_length q' + sh > 1024 + k"
    using assms unfolding truediv_pow2_def Let_def n_def [symmetric] L_def [symmetric]
      sh_def [symmetric] q_def [symmetric] q'_def [symmetric]
    by (auto split: if_splits)
  have "n < 2 ^ L" unfolding L_def by (rule bit_length_bound)
  also have "(2::nat) ^ L = 2 ^ (L - sh) * 2 ^ sh"
    unfolding sh_def by (simp flip: power_add)
  finally have "q < 2 ^ (L - sh)"
    unfolding q_def by (simp add: less_mult_imp_div_less)
  moreover have "q' \<le> q + 1" unfolding q'_def by simp
  ultimately have "q' < 2 ^ (L - sh + 1)" by simp
  then have "bit_length q' \<le> L - sh + 1" by (rule bit_length_le)
  then have "bit_length q' + sh \<le> L + 1" unfolding sh_def by simp
  with ov have "1023 + k < L" by simp
  have "2 ^ (1023 + k) \<le> n"
  proof (rule ccontr)
    assume "\<not> 2 ^ (1023 + k) \<le> n"
    then have "n < 2 ^ (1023 + k)" by simp
    then have "L \<le> 1023 + k" unfolding L_def by (rule bit_length_le)
    with \<open>1023 + k < L\<close> show False by simp
  qed
  then have "(2::int) ^ (1023 + k) \<le> int n" by (metis of_nat_le_iff of_nat_numeral of_nat_power)
  then show ?thesis using ov unfolding n_def by simp
qed

lemma seconds_token_not_memory_option:
  "v @ ''s'' \<noteq> ''-m''" "v @ ''s'' \<noteq> ''--memory_limit''"
proof -
  show "v @ ''s'' \<noteq> ''-m''"
  proof
    assume "v @ ''s'' = ''-m''"
    then have "last (v @ ''s'') = last ''-m''" by (rule arg_cong)
    then show False by simp
  qed
  show "v @ ''s'' \<noteq> ''--memory_limit''"
  proof
    assume "v @ ''s'' = ''--memory_limit''"
    then have "last (v @ ''s'') = last ''--memory_limit''" by (rule arg_cong)
    then show False by simp
  qed
qed

lemma take_append_separator:
  assumes "c \<notin> set p"
  shows "take (length p) (l @ c # x) = p \<longleftrightarrow> take (length p) l = p"
proof (cases "length p \<le> length l")
  case True
  then show ?thesis by simp
next
  case False
  then obtain j where j: "length p - length l = Suc j" by (cases "length p - length l") auto
  have "take (length p) (l @ c # x) = l @ c # take j x" using False j by simp
  moreover have "l @ c # take j x \<noteq> p" using assms by auto
  moreover have "take (length p) l \<noteq> p"
  proof
    assume "take (length p) l = p"
    then have "length (take (length p) l) = length p" by simp
    then show False using False by simp
  qed
  ultimately show ?thesis by simp
qed

lemma startswith_output_text:
  "startswith (output_text ls) ''Parsing error''
     \<longleftrightarrow> (case ls of [] \<Rightarrow> False | l # _ \<Rightarrow> startswith l ''Parsing error'')"
proof (cases ls)
  case Nil
  then show ?thesis by (simp add: startswith_def)
next
  case (Cons l rest)
  show ?thesis
  proof (cases rest)
    case Nil
    with Cons show ?thesis by simp
  next
    case (Cons l' rest')
    have "CHR 0x0A \<notin> set ''Parsing error''" by simp
    from take_append_separator [OF this, of l "output_text (l' # rest')"]
    show ?thesis using \<open>ls = l # rest\<close> Cons by (simp add: startswith_def)
  qed
qed

lemma get_szs_status_loop_total: "\<exists>st. get_szs_status_loop status ls = Inr st"
  by (induction ls arbitrary: status) (auto simp: py_index_def Let_def split: option.splits)

lemma get_szs_status_total: "\<exists>st. get_szs_status out = Inr st"
  unfolding get_szs_status_def by (rule get_szs_status_loop_total)

lemma str_split_nonempty: "w \<in> set (str_split s) \<Longrightarrow> w \<noteq> []"
proof (induction s rule: str_split.induct)
  case (1 s)
  show ?case
  proof (cases "dropWhile isspace s")
    case Nil
    with "1.prems" show ?thesis by (simp add: str_split.simps [of s])
  next
    case (Cons c cs)
    have "\<not> isspace c" using Cons hd_dropWhile [of isspace s] by simp
    then have "takeWhile (\<lambda>x. \<not> isspace x) (c # cs) \<noteq> []" by simp
    moreover have "w = takeWhile (\<lambda>x. \<not> isspace x) (c # cs)
        \<or> w \<in> set (str_split (dropWhile (\<lambda>x. \<not> isspace x) (c # cs)))"
      using "1.prems" Cons by (simp add: str_split.simps [of s])
    ultimately show ?thesis using "1.IH" [OF Cons] by auto
  qed
qed

lemma get_szs_status_loop_nonempty:
  "get_szs_status_loop status ls = Inr (Some w) \<Longrightarrow> status \<noteq> Some [] \<Longrightarrow> w \<noteq> []"
proof (induction ls arbitrary: status)
  case Nil
  then show ?case by auto
next
  case (Cons line rest)
  show ?case
  proof (cases "startswith line ''% SZS status''")
    case False
    with Cons show ?thesis by auto
  next
    case True
    show ?thesis
    proof (cases status)
      case (Some x)
      with True Cons.prems show ?thesis by simp
    next
      case None
      show ?thesis
      proof (cases "4 \<le> length (str_split line)")
        case False
        with True None Cons.prems have "get_szs_status_loop None rest = Inr (Some w)"
          by (simp add: Let_def)
        then show ?thesis using Cons.IH [of None] by simp
      next
        case len: True
        then have "str_split line ! 3 \<in> set (str_split line)" by simp
        then have ne: "str_split line ! 3 \<noteq> []" by (rule str_split_nonempty)
        from True None len Cons.prems
        have "get_szs_status_loop (Some (str_split line ! 3)) rest = Inr (Some w)"
          by (simp add: Let_def py_index_def)
        then show ?thesis using ne Cons.IH [of "Some (str_split line ! 3)"] by simp
      qed
    qed
  qed
qed

lemma digit_is_decimal: "d < 10 \<Longrightarrow> digit d \<in> set ''0123456789''"
  unfolding digit_def by (rule nth_mem) simp

lemma str_nat_decimal: "set (str_nat n) \<subseteq> set ''0123456789''"
proof (induction n rule: str_nat.induct)
  case (1 n)
  show ?case
  proof (cases "n < 10")
    case True
    then show ?thesis using digit_is_decimal [of n] by (subst str_nat.simps) simp
  next
    case False
    have "n mod 10 < 10" by simp
    then have "digit (n mod 10) \<in> set ''0123456789''" by (rule digit_is_decimal)
    then show ?thesis using False "1.IH" by (subst str_nat.simps) simp
  qed
qed

lemma str_int_not_time_option: "str_int i \<noteq> ''-t''"
proof
  assume "str_int i = ''-t''"
  then have "CHR ''t'' \<in> set (str_int i)" by simp
  then have "CHR ''t'' \<in> set (str_nat (nat (- i))) \<or> CHR ''t'' \<in> set (str_nat (nat i))"
    by (auto simp: str_int_def split: if_splits)
  then show False using str_nat_decimal by auto
qed

lemma cmdline_valid:
  assumes "length (input_files task) \<le> 1"
  shows "cmdline executable options task rlimits =
     (let ts = (if ''-t'' \<notin> set options \<and> ''--time_limit'' \<notin> set options
                then (case walltime rlimits of
                        None \<Rightarrow> [''-t'', ''0'']
                      | Some w \<Rightarrow> [''-t'', str_int w @ ''s''])
                else [])
      in if ''-m'' \<in> set options \<or> ''--memory_limit'' \<in> set options
         then (options @ ts, Inr (executable # options @ ts @ input_files task))
         else (case memory rlimits of
                 None \<Rightarrow> (options @ ts, Inr (executable # options @ ts @ input_files task))
               | Some m \<Rightarrow>
                   (case truediv_pow2 m 20 of
                      Inl e \<Rightarrow> (options @ ts, Inl e)
                    | Inr x \<Rightarrow>
                        (options @ ts @ [''-m'', str_int (int_of_double x)],
                         Inr (executable # options @ ts @ [''-m'', str_int (int_of_double x)]
                                @ input_files task)))))"
  using assms
  by (auto simp: cmdline_def Let_def seconds_token_not_memory_option
           split: option.splits sum.splits)

section \<open>The command-line builder: claims\<close>

text \<open>Evaluations of the true division that the examples below use.\<close>

lemma truediv_2GiB: "truediv_pow2 2147483648 20 = Inr (Double 2147483648 (- 20))"
  using truediv_pow2_small [of 2147483648 20] by simp

lemma bit_length_8PiB: "bit_length 9007199255789567 = 54"
  by (simp add: bit_length.simps)

lemma bit_length_mantissa: "bit_length 4503599627894784 = 53"
  by (simp add: bit_length.simps)

lemma truediv_8PiB: "truediv_pow2 9007199255789567 20 = Inr (Double 4503599627894784 (- 19))"
  by (simp add: truediv_pow2_def bit_length_8PiB bit_length_mantissa)

lemma truediv_minus_one: "truediv_pow2 (- 1) 20 = Inr (Double (- 1) (- 20))"
  using truediv_pow2_small [of "- 1" 20] by simp

text \<open>
  Claim C7. A task with more than one input file makes \<open>cmdline\<close> fail with the assertion
  error before anything is built: the option list is left as it was and no token list is
  returned. With no or one input file the assertion error does not occur.
\<close>

theorem cmdline_input_file_assertion:
  "(1 < length (input_files task)
      \<longrightarrow> cmdline executable options task rlimits = (options, Inl AssertionError))
   \<and> (length (input_files task) \<le> 1
      \<longrightarrow> snd (cmdline executable options task rlimits) \<noteq> Inl AssertionError)"
proof (intro conjI impI)
  assume "1 < length (input_files task)"
  then show "cmdline executable options task rlimits = (options, Inl AssertionError)"
    by (simp add: cmdline_def)
next
  assume "length (input_files task) \<le> 1"
  then show "snd (cmdline executable options task rlimits) \<noteq> Inl AssertionError"
    by (auto simp: cmdline_valid Let_def split: option.splits sum.splits
             dest: truediv_pow2_overflow)
qed

theorem cmdline_input_file_assertion_witness:
  "(1 < length (input_files \<lparr>input_files = [''a.p'', ''b.p'']\<rparr>)
    \<and> cmdline ''vampire'' [] \<lparr>input_files = [''a.p'', ''b.p'']\<rparr>
          \<lparr>walltime = None, memory = None\<rparr> = ([], Inl AssertionError))
   \<and> (length (input_files \<lparr>input_files = [''a.p'']\<rparr>) \<le> 1
    \<and> snd (cmdline ''vampire'' [] \<lparr>input_files = [''a.p'']\<rparr>
          \<lparr>walltime = None, memory = None\<rparr>) \<noteq> Inl AssertionError)"
  using cmdline_input_file_assertion [where task = "\<lparr>input_files = [''a.p'', ''b.p'']\<rparr>"
      and executable = "''vampire''" and options = "[]"
      and rlimits = "\<lparr>walltime = None, memory = None\<rparr>"]
    cmdline_input_file_assertion [where task = "\<lparr>input_files = [''a.p'']\<rparr>"
      and executable = "''vampire''" and options = "[]"
      and rlimits = "\<lparr>walltime = None, memory = None\<rparr>"]
  by simp

text \<open>
  Claim C6. Under the builder's precondition (at most one input file): when the user
  options contain neither \<open>-t\<close> nor \<open>--time_limit\<close>, \<open>cmdline\<close> appends, right after the
  user options, exactly the two tokens \<open>-t\<close>, \<open>0\<close> when no wall-clock limit is requested,
  and exactly \<open>-t\<close>, \<open><seconds>s\<close> when one is. Whatever follows is the memory option
  (nothing, or \<open>-m\<close> and its value), and the returned command line is the executable, the
  extended options and the input files, unless the memory conversion overflows.
\<close>

theorem cmdline_time_limit:
  assumes "''-t'' \<notin> set options" and "''--time_limit'' \<notin> set options"
    and "length (input_files task) \<le> 1"
  shows "\<exists>ms. fst (cmdline executable options task rlimits)
           = options @ (case walltime rlimits of
                          None \<Rightarrow> [''-t'', ''0'']
                        | Some w \<Rightarrow> [''-t'', str_int w @ ''s'']) @ ms
         \<and> (ms = [] \<or> (\<exists>k. ms = [''-m'', k]))
         \<and> (snd (cmdline executable options task rlimits)
               = Inr (executable # fst (cmdline executable options task rlimits)
                        @ input_files task)
            \<or> snd (cmdline executable options task rlimits) = Inl OverflowError)"
  using assms
  by (auto simp: cmdline_valid Let_def split: option.splits sum.splits
           dest: truediv_pow2_overflow)

theorem cmdline_time_limit_witness:
  "''-t'' \<notin> set [''--mode'', ''casc''] \<and> ''--time_limit'' \<notin> set [''--mode'', ''casc'']
   \<and> length (input_files \<lparr>input_files = [''a.p'']\<rparr>) \<le> 1
   \<and> (\<exists>ms. fst (cmdline ''vampire'' [''--mode'', ''casc''] \<lparr>input_files = [''a.p'']\<rparr>
                  \<lparr>walltime = Some 30, memory = None\<rparr>)
             = [''--mode'', ''casc''] @ [''-t'', ''30s''] @ ms
           \<and> (ms = [] \<or> (\<exists>k. ms = [''-m'', k])))
   \<and> (\<exists>ms. fst (cmdline ''vampire'' [''--mode'', ''casc''] \<lparr>input_files = [''a.p'']\<rparr>
                  \<lparr>walltime = None, memory = None\<rparr>)
             = [''--mode'', ''casc''] @ [''-t'', ''0''] @ ms
           \<and> (ms = [] \<or> (\<exists>k. ms = [''-m'', k])))"
  using cmdline_time_limit [where options = "[''--mode'', ''casc'']"
      and task = "\<lparr>input_files = [''a.p'']\<rparr>" and executable = "''vampire''"
      and rlimits = "\<lparr>walltime = Some 30, memory = None\<rparr>"]
    cmdline_time_limit [where options = "[''--mode'', ''casc'']"
      and task = "\<lparr>input_files = [''a.p'']\<rparr>" and executable = "''vampire''"
      and rlimits = "\<lparr>walltime = None, memory = None\<rparr>"]
  by (auto simp: str_int_def str_nat.simps digit_def)

text \<open>
  Claim C3, as amended. Under the builder's precondition: when the user options already
  contain \<open>-t\<close> or \<open>--time_limit\<close>, \<open>cmdline\<close> appends no \<open>-t\<close> token. It appends nothing at
  all when the options contain \<open>-m\<close> or \<open>--memory_limit\<close> or no memory ceiling is requested.
  Otherwise, for a ceiling of \<open>m\<close> bytes, it appends exactly the two tokens \<open>-m\<close> and the
  decimal string of \<^verbatim>\<open>int(m / (1024 * 1024))\<close>, which is \<open>m div 1048576\<close> for
  \<open>0 \<le> m < 2 ^ 53\<close>, and returns the executable, the extended options and the input files;
  the one exception is the overflow of the division, possible only for a ceiling of
  \<open>2 ^ 1043\<close> bytes or more, which leaves the options as they were.
\<close>

theorem cmdline_user_time_limit:
  assumes "''-t'' \<in> set options \<or> ''--time_limit'' \<in> set options"
    and "length (input_files task) \<le> 1"
  shows "(''-m'' \<in> set options \<or> ''--memory_limit'' \<in> set options \<or> memory rlimits = None
            \<longrightarrow> cmdline executable options task rlimits
                  = (options, Inr (executable # options @ input_files task)))
         \<and> (\<forall>m. ''-m'' \<notin> set options \<and> ''--memory_limit'' \<notin> set options
                  \<and> memory rlimits = Some m
            \<longrightarrow> (case truediv_pow2 m 20 of
                   Inl e \<Rightarrow>
                     cmdline executable options task rlimits = (options, Inl OverflowError)
                     \<and> 2 ^ 1043 \<le> \<bar>m\<bar>
                 | Inr x \<Rightarrow>
                     cmdline executable options task rlimits
                       = (options @ [''-m'', str_int (int_of_double x)],
                          Inr (executable # options @ [''-m'', str_int (int_of_double x)]
                                 @ input_files task))
                     \<and> ''-t'' \<notin> set [''-m'', str_int (int_of_double x)]
                     \<and> (0 \<le> m \<and> m < 2 ^ 53 \<longrightarrow> int_of_double x = m div 1048576)))"
proof (intro conjI impI allI)
  assume "''-m'' \<in> set options \<or> ''--memory_limit'' \<in> set options \<or> memory rlimits = None"
  then show "cmdline executable options task rlimits
               = (options, Inr (executable # options @ input_files task))"
    using assms by (auto simp: cmdline_valid Let_def)
next
  fix m
  assume h: "''-m'' \<notin> set options \<and> ''--memory_limit'' \<notin> set options
             \<and> memory rlimits = Some m"
  show "case truediv_pow2 m 20 of
          Inl e \<Rightarrow>
            cmdline executable options task rlimits = (options, Inl OverflowError)
            \<and> 2 ^ 1043 \<le> \<bar>m\<bar>
        | Inr x \<Rightarrow>
            cmdline executable options task rlimits
              = (options @ [''-m'', str_int (int_of_double x)],
                 Inr (executable # options @ [''-m'', str_int (int_of_double x)]
                        @ input_files task))
            \<and> ''-t'' \<notin> set [''-m'', str_int (int_of_double x)]
            \<and> (0 \<le> m \<and> m < 2 ^ 53 \<longrightarrow> int_of_double x = m div 1048576)"
  proof (cases "truediv_pow2 m 20")
    case (Inl e)
    from truediv_pow2_overflow [OF Inl] have "e = OverflowError" and "2 ^ 1043 \<le> \<bar>m\<bar>"
      by simp_all
    then show ?thesis
      using assms h Inl by (auto simp: cmdline_valid Let_def)
  next
    case (Inr x)
    have exact: "int_of_double x = m div 1048576" if "0 \<le> m" and "m < 2 ^ 53"
    proof -
      have "truediv_pow2 m 20 = Inr (Double m (- 20))"
        using truediv_pow2_small [of m 20] that by simp
      with Inr have "x = Double m (- 20)" by simp
      then show ?thesis using that(1) by (simp add: int_of_double_MiB)
    qed
    have "cmdline executable options task rlimits
              = (options @ [''-m'', str_int (int_of_double x)],
                 Inr (executable # options @ [''-m'', str_int (int_of_double x)]
                        @ input_files task))"
      using assms h Inr by (auto simp: cmdline_valid Let_def)
    moreover have "''-t'' \<notin> set [''-m'', str_int (int_of_double x)]"
      by (simp add: str_int_not_time_option [symmetric])
    ultimately show ?thesis using Inr exact by simp
  qed
qed

theorem cmdline_user_time_limit_witness:
  "(''-t'' \<in> set [''--time_limit'', ''10s''] \<or> ''--time_limit'' \<in> set [''--time_limit'', ''10s''])
   \<and> length (input_files \<lparr>input_files = [''a.p'']\<rparr>) \<le> 1
   \<and> ''-m'' \<notin> set [''--time_limit'', ''10s'']
   \<and> ''--memory_limit'' \<notin> set [''--time_limit'', ''10s'']
   \<and> memory \<lparr>walltime = Some 30, memory = Some 2147483648\<rparr> = Some 2147483648
   \<and> cmdline ''vampire'' [''--time_limit'', ''10s''] \<lparr>input_files = [''a.p'']\<rparr>
        \<lparr>walltime = Some 30, memory = Some 2147483648\<rparr>
     = ([''--time_limit'', ''10s'', ''-m'', ''2048''],
        Inr [''vampire'', ''--time_limit'', ''10s'', ''-m'', ''2048'', ''a.p''])
   \<and> (''-t'' \<in> set [''-t'', ''10'', ''-m'', ''500''] \<or> ''--time_limit'' \<in> set [''-t'', ''10'', ''-m'', ''500''])
   \<and> ''-m'' \<in> set [''-t'', ''10'', ''-m'', ''500'']
   \<and> cmdline ''vampire'' [''-t'', ''10'', ''-m'', ''500''] \<lparr>input_files = [''a.p'']\<rparr>
        \<lparr>walltime = Some 30, memory = Some 2147483648\<rparr>
     = ([''-t'', ''10'', ''-m'', ''500''],
        Inr [''vampire'', ''-t'', ''10'', ''-m'', ''500'', ''a.p''])"
  using cmdline_user_time_limit [where options = "[''--time_limit'', ''10s'']"
      and task = "\<lparr>input_files = [''a.p'']\<rparr>" and executable = "''vampire''"
      and rlimits = "\<lparr>walltime = Some 30, memory = Some 2147483648\<rparr>"]
    cmdline_user_time_limit [where options = "[''-t'', ''10'', ''-m'', ''500'']"
      and task = "\<lparr>input_files = [''a.p'']\<rparr>" and executable = "''vampire''"
      and rlimits = "\<lparr>walltime = Some 30, memory = Some 2147483648\<rparr>"]
  by (simp add: truediv_2GiB int_of_double_def str_int_def str_nat.simps digit_def)

text \<open>
  Claim C3 as stated fails: with the user option \<open>-t 10\<close> and a memory ceiling of 2 GiB,
  \<open>cmdline\<close> appends \<open>-m 2048\<close>. The two guards of the builder are independent.
\<close>

theorem cmdline_user_time_limit_counterexample:
  "''-t'' \<in> set [''-t'', ''10'']
   \<and> cmdline ''vampire'' [''-t'', ''10''] \<lparr>input_files = [''a.p'']\<rparr>
        \<lparr>walltime = None, memory = Some 2147483648\<rparr>
     = ([''-t'', ''10'', ''-m'', ''2048''],
        Inr [''vampire'', ''-t'', ''10'', ''-m'', ''2048'', ''a.p''])"
  by (simp add: cmdline_def truediv_2GiB int_of_double_def str_int_def str_nat.simps digit_def)

text \<open>
  Claim C8. For at most one input file, the token list \<open>cmdline\<close> returns is the executable,
  then the user options unchanged and in order, then the appended limit tokens (a time
  limit only if the user gave none, a memory limit only if the user gave none), then the
  input files. The only case without a returned list is the overflow of the memory
  conversion, for a ceiling of \<open>2 ^ 1043\<close> bytes or more.
\<close>

theorem cmdline_token_order:
  assumes "length (input_files task) \<le> 1"
  shows "\<exists>ts ms. fst (cmdline executable options task rlimits) = options @ ts @ ms
         \<and> (ts = [] \<or> (\<exists>v. ts = [''-t'', v] \<and> ''-t'' \<notin> set options
                            \<and> ''--time_limit'' \<notin> set options))
         \<and> (ms = [] \<or> (\<exists>k. ms = [''-m'', k] \<and> ''-m'' \<notin> set options
                            \<and> ''--memory_limit'' \<notin> set options))
         \<and> (case snd (cmdline executable options task rlimits) of
               Inr toks \<Rightarrow> toks = executable # options @ ts @ ms @ input_files task
             | Inl e \<Rightarrow> e = OverflowError
                        \<and> (\<exists>m. memory rlimits = Some m \<and> 2 ^ 1043 \<le> \<bar>m\<bar>))"
proof -
  define ts where "ts = (if ''-t'' \<notin> set options \<and> ''--time_limit'' \<notin> set options
                then (case walltime rlimits of
                        None \<Rightarrow> [''-t'', ''0'']
                      | Some w \<Rightarrow> [''-t'', str_int w @ ''s''])
                else [])"
  define ms where "ms = (if ''-m'' \<in> set options \<or> ''--memory_limit'' \<in> set options then []
                else (case memory rlimits of
                        None \<Rightarrow> []
                      | Some m \<Rightarrow>
                          (case truediv_pow2 m 20 of
                             Inl e \<Rightarrow> []
                           | Inr x \<Rightarrow> [''-m'', str_int (int_of_double x)])))"
  have t: "ts = [] \<or> (\<exists>v. ts = [''-t'', v] \<and> ''-t'' \<notin> set options
                            \<and> ''--time_limit'' \<notin> set options)"
    unfolding ts_def by (simp split: option.splits)
  have m: "ms = [] \<or> (\<exists>k. ms = [''-m'', k] \<and> ''-m'' \<notin> set options
                            \<and> ''--memory_limit'' \<notin> set options)"
    unfolding ms_def by (simp split: option.splits sum.splits)
  have f: "fst (cmdline executable options task rlimits) = options @ ts @ ms"
    using assms unfolding ts_def ms_def
    by (simp add: cmdline_valid Let_def split: option.splits sum.splits)
  have s: "case snd (cmdline executable options task rlimits) of
               Inr toks \<Rightarrow> toks = executable # options @ ts @ ms @ input_files task
             | Inl e \<Rightarrow> e = OverflowError
                        \<and> (\<exists>m. memory rlimits = Some m \<and> 2 ^ 1043 \<le> \<bar>m\<bar>)"
    using assms unfolding ts_def ms_def
    by (auto simp: cmdline_valid Let_def split: option.splits sum.splits
             dest: truediv_pow2_overflow)
  from f t m s show ?thesis by blast
qed

theorem cmdline_token_order_witness:
  "length (input_files \<lparr>input_files = [''a.p'']\<rparr>) \<le> 1
   \<and> (\<exists>ts ms. fst (cmdline ''vampire'' [''--mode'', ''casc''] \<lparr>input_files = [''a.p'']\<rparr>
                  \<lparr>walltime = Some 30, memory = Some 2147483648\<rparr>)
               = [''--mode'', ''casc''] @ ts @ ms
         \<and> (case snd (cmdline ''vampire'' [''--mode'', ''casc''] \<lparr>input_files = [''a.p'']\<rparr>
                  \<lparr>walltime = Some 30, memory = Some 2147483648\<rparr>) of
               Inr toks \<Rightarrow> toks = ''vampire'' # [''--mode'', ''casc''] @ ts @ ms @ [''a.p'']
             | Inl e \<Rightarrow> e = OverflowError))
   \<and> snd (cmdline ''vampire'' [''--mode'', ''casc''] \<lparr>input_files = [''a.p'']\<rparr>
                  \<lparr>walltime = Some 30, memory = Some 2147483648\<rparr>)
     = Inr [''vampire'', ''--mode'', ''casc'', ''-t'', ''30s'', ''-m'', ''2048'', ''a.p'']"
proof -
  have "snd (cmdline ''vampire'' [''--mode'', ''casc''] \<lparr>input_files = [''a.p'']\<rparr>
                  \<lparr>walltime = Some 30, memory = Some 2147483648\<rparr>)
     = Inr [''vampire'', ''--mode'', ''casc'', ''-t'', ''30s'', ''-m'', ''2048'', ''a.p'']"
    by (simp add: cmdline_def truediv_2GiB int_of_double_def str_int_def str_nat.simps digit_def)
  then show ?thesis
    using cmdline_token_order [where options = "[''--mode'', ''casc'']"
      and task = "\<lparr>input_files = [''a.p'']\<rparr>" and executable = "''vampire''"
      and rlimits = "\<lparr>walltime = Some 30, memory = Some 2147483648\<rparr>"]
    by auto
qed

text \<open>
  Claim C2, as amended. Under the builder's precondition: for a memory ceiling of \<open>m\<close> bytes
  with \<open>0 \<le> m < 2 ^ 53\<close>, when the user options contain neither \<open>-m\<close> nor \<open>--memory_limit\<close>,
  \<open>cmdline\<close> appends, as the last two tokens of the options, \<open>-m\<close> and the decimal string
  of \<open>m div 1048576\<close>; in particular \<open>2 * 1024 ^ 3\<close> bytes gives \<open>-m 2048\<close>.
\<close>

theorem cmdline_memory_mebibytes:
  assumes "''-m'' \<notin> set options" and "''--memory_limit'' \<notin> set options"
    and "length (input_files task) \<le> 1"
    and "memory rlimits = Some m" and "0 \<le> m" and "m < 2 ^ 53"
  shows "\<exists>opts. cmdline executable options task rlimits
           = (opts @ [''-m'', str_int (m div 1048576)],
              Inr (executable # opts @ [''-m'', str_int (m div 1048576)] @ input_files task))
         \<and> (opts = options \<or> (\<exists>v. opts = options @ [''-t'', v]))"
proof -
  have "truediv_pow2 m 20 = Inr (Double m (- 20))"
    using truediv_pow2_small [of m 20] assms(5,6) by simp
  moreover have "int_of_double (Double m (- 20)) = m div 1048576"
    using assms(5) by (rule int_of_double_MiB)
  ultimately show ?thesis
    using assms(1-4) by (auto simp: cmdline_valid Let_def split: option.splits)
qed

theorem cmdline_memory_mebibytes_witness:
  "''-m'' \<notin> set [] \<and> ''--memory_limit'' \<notin> set []
   \<and> length (input_files \<lparr>input_files = [''a.p'']\<rparr>) \<le> 1
   \<and> memory \<lparr>walltime = None, memory = Some (2 * 1024 ^ 3)\<rparr> = Some (2 * 1024 ^ 3)
   \<and> (0::int) \<le> 2 * 1024 ^ 3 \<and> (2 * 1024 ^ 3 :: int) < 2 ^ 53
   \<and> (\<exists>opts. cmdline ''vampire'' [] \<lparr>input_files = [''a.p'']\<rparr>
                  \<lparr>walltime = None, memory = Some (2 * 1024 ^ 3)\<rparr>
           = (opts @ [''-m'', ''2048''], Inr (''vampire'' # opts @ [''-m'', ''2048''] @ [''a.p'']))
         \<and> (opts = [] \<or> (\<exists>v. opts = [] @ [''-t'', v])))"
  using cmdline_memory_mebibytes [where options = "[]"
      and task = "\<lparr>input_files = [''a.p'']\<rparr>" and executable = "''vampire''"
      and rlimits = "\<lparr>walltime = None, memory = Some (2 * 1024 ^ 3)\<rparr>"
      and m = "2 * 1024 ^ 3"]
  by (simp add: str_int_def str_nat.simps digit_def)

text \<open>
  Claim C2 as stated fails for large ceilings: the source computes
  \<^verbatim>\<open>int(rlimits.memory / (1024 * 1024))\<close> through a double. For
  \<open>m = 2 ^ 53 + 2 ^ 20 - 1 = 9007199255789567\<close> the quotient rounds up to \<open>8589934593\<close>,
  while the floor division gives \<open>8589934592\<close>.
\<close>

theorem cmdline_memory_floor_counterexample:
  "cmdline ''vampire'' [] \<lparr>input_files = [''a.p'']\<rparr>
        \<lparr>walltime = None, memory = Some 9007199255789567\<rparr>
     = ([''-t'', ''0'', ''-m'', ''8589934593''],
        Inr [''vampire'', ''-t'', ''0'', ''-m'', ''8589934593'', ''a.p''])
   \<and> str_int (9007199255789567 div 1048576) = ''8589934592''"
  by (simp add: cmdline_def truediv_8PiB int_of_double_def str_int_def str_nat.simps digit_def)

text \<open>
  A negative ceiling is truncated toward zero by \<open>int\<close>, where floor division rounds down.
\<close>

lemma cmdline_negative_memory:
  "cmdline ''vampire'' [] \<lparr>input_files = [''a.p'']\<rparr>
        \<lparr>walltime = None, memory = Some (- 1)\<rparr>
     = ([''-t'', ''0'', ''-m'', ''0''], Inr [''vampire'', ''-t'', ''0'', ''-m'', ''0'', ''a.p''])
   \<and> str_int (- 1 div 1048576) = ''-1''"
  by (simp add: cmdline_def truediv_minus_one int_of_double_def str_int_def str_nat.simps digit_def)

section \<open>The output scanners: claims\<close>

text \<open>
  Once a status has been stored, any further line with the prefix ends the scan with
  \<open>None\<close>; without such a line the stored status is returned.
\<close>

lemma get_szs_status_loop_seen:
  "get_szs_status_loop (Some w) ls
     = Inr (if \<exists>l \<in> set ls. startswith l ''% SZS status'' then None else Some w)"
  by (induction ls) auto

text \<open>Without a status line the scan returns the status it started with.\<close>

lemma get_szs_status_loop_no_line:
  "\<forall>l \<in> set ls. \<not> startswith l ''% SZS status'' \<Longrightarrow> get_szs_status_loop status ls = Inr status"
  by (induction ls) auto

text \<open>The words of the status lines used in the examples.\<close>

lemma str_split_status_line:
  "str_split ''% SZS status Theorem for foo'' = [''%'', ''SZS'', ''status'', ''Theorem'', ''for'', ''foo'']"
  by (simp add: str_split.simps isspace_def)

lemma str_split_bare_status_line: "str_split ''% SZS status'' = [''%'', ''SZS'', ''status'']"
  by (simp add: str_split.simps isspace_def)

lemma str_split_sat_line:
  "str_split ''% SZS status Satisfiable for foo''
     = [''%'', ''SZS'', ''status'', ''Satisfiable'', ''for'', ''foo'']"
  by (simp add: str_split.simps isspace_def)

text \<open>
  One status line gives its fourth word; a well-formed status line followed by any second
  status line gives \<open>None\<close>.
\<close>

lemma get_szs_status_single_line:
  "get_szs_status [''% SZS status Theorem for foo''] = Inr (Some ''Theorem'')"
  by (simp add: get_szs_status_def startswith_def str_split_status_line py_index_def)

lemma get_szs_status_well_formed_first:
  "get_szs_status [''% SZS status Theorem for foo'', ''% SZS status''] = Inr None"
  by (simp add: get_szs_status_def startswith_def str_split_status_line py_index_def)

text \<open>
  Claim C1 says that every output with two or more lines starting with \<open>% SZS status\<close>
  gives \<open>None\<close>, whatever the lines contain. The scan uses \<open>status is None\<close> as its test
  for "no status line seen yet", so a first status line with fewer than four words leaves
  no trace: on the two lines \<open>% SZS status\<close> and \<open>% SZS status Theorem for foo\<close> the
  function returns \<open>Theorem\<close>, where the same two lines in the other order give \<open>None\<close>.
\<close>

theorem get_szs_status_malformed_first:
  "get_szs_status [''% SZS status'', ''% SZS status Theorem for foo''] = Inr (Some ''Theorem'')"
  by (simp add: get_szs_status_def startswith_def str_split_status_line
        str_split_bare_status_line py_index_def)

text \<open>
  For the identifier \<open>szs-status\<close> the value is the extracted status, or \<open>--\<close> when there
  is none; an extracted status is a word of \<open>split\<close> and so never empty. An output with
  no status line gives \<open>--\<close>.
\<close>

lemma get_value_from_output_szs_status:
  assumes "get_szs_status out = Inr status"
  shows "get_value_from_output out ''szs-status''
           = Inr (Some (case status of None \<Rightarrow> ''--'' | Some s \<Rightarrow> s))"
proof (cases status)
  case None
  with assms show ?thesis by (simp add: get_value_from_output_def)
next
  case (Some s)
  have "s \<noteq> []"
    using assms Some get_szs_status_loop_nonempty [of None out s]
    by (simp add: get_szs_status_def)
  with assms Some show ?thesis by (simp add: get_value_from_output_def)
qed

lemma get_value_from_output_no_line:
  assumes "\<forall>l \<in> set out. \<not> startswith l ''% SZS status''"
  shows "get_value_from_output out ''szs-status'' = Inr (Some ''--'')"
  using get_szs_status_loop_no_line [OF assms, of None]
  by (simp add: get_value_from_output_def get_szs_status_def)

text \<open>
  Claim C9 says that \<open>get_value_from_output\<close> gives \<open>--\<close> for an output with several status
  lines. On the two lines \<open>% SZS status\<close> and \<open>% SZS status Theorem for foo\<close> it returns
  \<open>Theorem\<close>: the value comes from \<open>get_szs_status\<close>, which misses this case.
\<close>

theorem get_value_from_output_malformed_first:
  "get_value_from_output [''% SZS status'', ''% SZS status Theorem for foo''] ''szs-status''
     = Inr (Some ''Theorem'')"
  by (simp add: get_value_from_output_def get_szs_status_def startswith_def
        str_split_status_line str_split_bare_status_line py_index_def)

section \<open>The result classifier: claims\<close>

text \<open>
  Claim C4. For a run whose exit code is true (a failure exit status), \<open>determine_result\<close>
  decides in this order: the extracted status \<open>Timeout\<close> gives \<open>TIMEOUT\<close> whatever the exit
  code; else exit code 4 with a first output line starting with \<open>Parsing error\<close> gives
  \<open>Parsing error\<close>; else exit code 1 with the termination reasons exactly \<open>Time limit\<close>
  gives \<open>TIMEOUT\<close>, and with exactly one of the two \<open>Refutation not found\<close> reasons gives
  \<open>Incomplete\<close>; everything else gives the error constant. The status extraction
  itself never fails.
\<close>

theorem determine_result_failure:
  assumes "exit_code r = Some ec" and "truth ec"
  shows "\<exists>status. get_szs_status (output r) = Inr status
     \<and> determine_result R r = Inr
         (if status = Some ''Timeout'' then ''TIMEOUT''
          else if exit_value ec = Some 4
                  \<and> (case output r of [] \<Rightarrow> False | l # _ \<Rightarrow> startswith l ''Parsing error'')
            then ''Parsing error''
          else if exit_value ec = Some 1
                  \<and> get_other_termination_reasons (output r) = [''Time limit'']
            then ''TIMEOUT''
          else if exit_value ec = Some 1
                  \<and> (get_other_termination_reasons (output r)
                        = [''Refutation not found, incomplete strategy'']
                      \<or> get_other_termination_reasons (output r)
                        = [''Refutation not found, non-redundant clauses discarded''])
            then ''Incomplete''
          else RESULT_ERROR R)"
proof -
  obtain status where st: "get_szs_status (output r) = Inr status"
    using get_szs_status_total by blast
  have "determine_result R r = Inr
         (if status = Some ''Timeout'' then ''TIMEOUT''
          else if exit_value ec = Some 4
                  \<and> (case output r of [] \<Rightarrow> False | l # _ \<Rightarrow> startswith l ''Parsing error'')
            then ''Parsing error''
          else if exit_value ec = Some 1
                  \<and> get_other_termination_reasons (output r) = [''Time limit'']
            then ''TIMEOUT''
          else if exit_value ec = Some 1
                  \<and> (get_other_termination_reasons (output r)
                        = [''Refutation not found, incomplete strategy'']
                      \<or> get_other_termination_reasons (output r)
                        = [''Refutation not found, non-redundant clauses discarded''])
            then ''Incomplete''
          else RESULT_ERROR R)"
    using assms st
    by (simp add: determine_result_def exit_code_true_def exit_code_value_is_def
          startswith_output_text Let_def)
  with st show ?thesis by blast
qed

theorem determine_result_failure_witness:
  "exit_code \<lparr>exit_code = Some \<lparr>truth = True, exit_value = Some 1\<rparr>,
              output = [''% Termination reason: Time limit'']\<rparr>
     = Some \<lparr>truth = True, exit_value = Some 1\<rparr>
   \<and> truth \<lparr>truth = True, exit_value = Some 1\<rparr>
   \<and> determine_result
         \<lparr>RESULT_TRUE_PROP = ''true'', RESULT_FALSE_PROP = ''false'',
          RESULT_UNKNOWN = ''unknown'', RESULT_ERROR = ''ERROR''\<rparr>
         \<lparr>exit_code = Some \<lparr>truth = True, exit_value = Some 1\<rparr>,
          output = [''% Termination reason: Time limit'']\<rparr> = Inr ''TIMEOUT''
   \<and> exit_code \<lparr>exit_code = Some \<lparr>truth = True, exit_value = Some 4\<rparr>,
              output = [''Parsing error: unexpected token'']\<rparr>
     = Some \<lparr>truth = True, exit_value = Some 4\<rparr>
   \<and> truth \<lparr>truth = True, exit_value = Some 4\<rparr>
   \<and> determine_result
         \<lparr>RESULT_TRUE_PROP = ''true'', RESULT_FALSE_PROP = ''false'',
          RESULT_UNKNOWN = ''unknown'', RESULT_ERROR = ''ERROR''\<rparr>
         \<lparr>exit_code = Some \<lparr>truth = True, exit_value = Some 4\<rparr>,
          output = [''Parsing error: unexpected token'']\<rparr> = Inr ''Parsing error''"
  using determine_result_failure
      [where r = "\<lparr>exit_code = Some \<lparr>truth = True, exit_value = Some 1\<rparr>,
                    output = [''% Termination reason: Time limit'']\<rparr>"
         and ec = "\<lparr>truth = True, exit_value = Some 1\<rparr>"
         and R = "\<lparr>RESULT_TRUE_PROP = ''true'', RESULT_FALSE_PROP = ''false'',
                    RESULT_UNKNOWN = ''unknown'', RESULT_ERROR = ''ERROR''\<rparr>"]
    determine_result_failure
      [where r = "\<lparr>exit_code = Some \<lparr>truth = True, exit_value = Some 4\<rparr>,
                    output = [''Parsing error: unexpected token'']\<rparr>"
         and ec = "\<lparr>truth = True, exit_value = Some 4\<rparr>"
         and R = "\<lparr>RESULT_TRUE_PROP = ''true'', RESULT_FALSE_PROP = ''false'',
                    RESULT_UNKNOWN = ''unknown'', RESULT_ERROR = ''ERROR''\<rparr>"]
  by (auto simp: get_szs_status_def get_other_termination_reasons_def prefix_def
        startswith_def)

text \<open>
  Claim C5. For a run whose exit code is absent or false (a normal exit status),
  \<open>determine_result\<close> gives the constant for a true property when the extracted status is
  \<open>ContradictoryAxioms\<close>, \<open>Theorem\<close> or \<open>Unsatisfiable\<close>, the constant for a false property
  when it is \<open>CounterSatisfiable\<close> or \<open>Satisfiable\<close>, and the constant for unknown in every
  other case, an absent status included.
\<close>

theorem determine_result_normal:
  assumes "exit_code r = None \<or> (\<exists>ec. exit_code r = Some ec \<and> \<not> truth ec)"
  shows "\<exists>status. get_szs_status (output r) = Inr status
     \<and> determine_result R r = Inr
         (if status \<in> {Some ''ContradictoryAxioms'', Some ''Theorem'', Some ''Unsatisfiable''}
            then RESULT_TRUE_PROP R
          else if status \<in> {Some ''CounterSatisfiable'', Some ''Satisfiable''}
            then RESULT_FALSE_PROP R
          else RESULT_UNKNOWN R)"
proof -
  obtain status where st: "get_szs_status (output r) = Inr status"
    using get_szs_status_total by blast
  have f: "\<not> exit_code_true r"
    using assms by (auto simp: exit_code_true_def)
  have "determine_result R r = Inr
         (if status \<in> {Some ''ContradictoryAxioms'', Some ''Theorem'', Some ''Unsatisfiable''}
            then RESULT_TRUE_PROP R
          else if status \<in> {Some ''CounterSatisfiable'', Some ''Satisfiable''}
            then RESULT_FALSE_PROP R
          else RESULT_UNKNOWN R)"
    using st f
    by (cases status) (auto simp: determine_result_def status_in_def SZS_UNSAT_def SZS_SAT_def)
  with st show ?thesis by blast
qed

theorem determine_result_normal_witness:
  "exit_code \<lparr>exit_code = None, output = [''% SZS status Theorem for foo'']\<rparr> = None
   \<and> determine_result
         \<lparr>RESULT_TRUE_PROP = ''true'', RESULT_FALSE_PROP = ''false'',
          RESULT_UNKNOWN = ''unknown'', RESULT_ERROR = ''ERROR''\<rparr>
         \<lparr>exit_code = None, output = [''% SZS status Theorem for foo'']\<rparr> = Inr ''true''
   \<and> (\<exists>ec. exit_code \<lparr>exit_code = Some \<lparr>truth = False, exit_value = Some 0\<rparr>,
                    output = [''% SZS status Satisfiable for foo'']\<rparr> = Some ec \<and> \<not> truth ec)
   \<and> determine_result
         \<lparr>RESULT_TRUE_PROP = ''true'', RESULT_FALSE_PROP = ''false'',
          RESULT_UNKNOWN = ''unknown'', RESULT_ERROR = ''ERROR''\<rparr>
         \<lparr>exit_code = Some \<lparr>truth = False, exit_value = Some 0\<rparr>,
          output = [''% SZS status Satisfiable for foo'']\<rparr> = Inr ''false''"
  using determine_result_normal
      [where r = "\<lparr>exit_code = None, output = [''% SZS status Theorem for foo'']\<rparr>"
         and R = "\<lparr>RESULT_TRUE_PROP = ''true'', RESULT_FALSE_PROP = ''false'',
                    RESULT_UNKNOWN = ''unknown'', RESULT_ERROR = ''ERROR''\<rparr>"]
    determine_result_normal
      [where r = "\<lparr>exit_code = Some \<lparr>truth = False, exit_value = Some 0\<rparr>,
                    output = [''% SZS status Satisfiable for foo'']\<rparr>"
         and R = "\<lparr>RESULT_TRUE_PROP = ''true'', RESULT_FALSE_PROP = ''false'',
                    RESULT_UNKNOWN = ''unknown'', RESULT_ERROR = ''ERROR''\<rparr>"]
  by (auto simp: get_szs_status_def startswith_def str_split_status_line str_split_sat_line
        py_index_def)

text \<open>
  Claim C10. For every run, \<open>determine_result\<close> raises no exception and its result is one of
  the seven strings \<open>TIMEOUT\<close>, \<open>Parsing error\<close>, \<open>Incomplete\<close> and the constants for error,
  true property, false property and unknown.
\<close>

theorem determine_result_total:
  "\<exists>s. determine_result R r = Inr s
     \<and> s \<in> {''TIMEOUT'', ''Parsing error'', ''Incomplete'', RESULT_ERROR R,
              RESULT_TRUE_PROP R, RESULT_FALSE_PROP R, RESULT_UNKNOWN R}"
proof -
  obtain status where st: "get_szs_status (output r) = Inr status"
    using get_szs_status_total by blast
  then show ?thesis
    by (simp add: determine_result_def Let_def)
qed

end
